theory Spec2Isabelle
  imports Complex_Main
begin

section \<open>Data model of \<open>previews.py\<close>\<close>

text \<open>
  Exceptions the module's own statements can raise. A raise is the \<open>Inl\<close> branch of a
  result of type \<open>error + 'a\<close>.
\<close>

datatype error = AttributeError | IndexError | ZeroDivisionError | ValueError

text \<open>
  A numpy array of any rank, as nested lists. The element type \<open>'n\<close> stands for numpy's
  scalars (8-bit and 16-bit samples, 64-bit floats). The elementwise operations of numpy
  are \<open>map_ndarray\<close>.
\<close>

datatype 'n ndarray = Scalar 'n | Array "'n ndarray list"

text \<open>\<open>frame.shape\<close>: the length of every axis, following the first element of each axis.\<close>

fun shape :: "'n ndarray \<Rightarrow> nat list" where
  "shape (Scalar v) = []"
| "shape (Array []) = [0]"
| "shape (Array (r # rs)) = Suc (length rs) # shape r"

text \<open>
  \<open>t[i]\<close> on a tuple (here \<open>depth_raw.shape[1]\<close>): IndexError outside the tuple.
\<close>

definition tuple_get :: "'a list \<Rightarrow> nat \<Rightarrow> error + 'a" where
  "tuple_get t i = (if i < length t then Inr (t ! i) else Inl IndexError)"

text \<open>
  \<open>a[i]\<close> on an array: a negative index counts from the end, an index outside the first
  axis raises IndexError, and so does indexing a scalar.
\<close>

fun nd_index :: "'n ndarray \<Rightarrow> int \<Rightarrow> error + 'n ndarray" where
  "nd_index (Scalar v) i = Inl IndexError"
| "nd_index (Array rs) i =
     (let n = int (length rs); j = (if i < 0 then n + i else i)
      in if 0 \<le> j \<and> j < n then Inr (rs ! nat j) else Inl IndexError)"

text \<open>\<open>a[::-1]\<close>: the first axis reversed; on a scalar, IndexError.\<close>

fun nd_reversed :: "'n ndarray \<Rightarrow> error + 'n ndarray list" where
  "nd_reversed (Scalar v) = Inl IndexError"
| "nd_reversed (Array rs) = Inr (rev rs)"

text \<open>
  The arithmetic of the platform, taken as a parameter: Python's float operations
  (\<open>fl_\<close>, \<open>math_\<close>) and numpy's elementwise ones (\<open>np_\<close>). \<open>fl_lit\<close> reads a
  numeric literal; \<open>fl_is_zero\<close> tells when Python's \<open>/\<close> raises; \<open>math_tan\<close> is
  \<open>None\<close> where \<open>math.tan\<close> raises ValueError; \<open>np_div\<close> is total (numpy yields
  \<open>inf\<close> or \<open>nan\<close> on a zero divisor); \<open>np_uint8\<close> is \<open>astype(np.uint8)\<close> on one
  sample.
\<close>

record 'n pyarith =
  fl_lit :: "rat \<Rightarrow> 'n"
  fl_mul :: "'n \<Rightarrow> 'n \<Rightarrow> 'n"
  fl_div :: "'n \<Rightarrow> 'n \<Rightarrow> 'n"
  fl_is_zero :: "'n \<Rightarrow> bool"
  math_radians :: "'n \<Rightarrow> 'n"
  math_tan :: "'n \<Rightarrow> 'n option"
  np_div :: "'n \<Rightarrow> 'n \<Rightarrow> 'n"
  np_mul :: "'n \<Rightarrow> 'n \<Rightarrow> 'n"
  np_uint8 :: "'n \<Rightarrow> 'n"

text \<open>Python's \<open>a / b\<close> on numbers: ZeroDivisionError on a zero divisor.\<close>

definition py_truediv :: "'n pyarith \<Rightarrow> 'n \<Rightarrow> 'n \<Rightarrow> error + 'n" where
  "py_truediv ar a b = (if fl_is_zero ar b then Inl ZeroDivisionError else Inr (fl_div ar a b))"

text \<open>The flags of \<open>cv2.imdecode\<close> the module uses.\<close>

datatype imread = IMREAD_COLOR | IMREAD_GRAYSCALE | IMREAD_UNCHANGED

text \<open>
  The OpenCV primitives, taken as parameters: \<open>cv2.imdecode(data, flag)\<close>,
  \<open>cv2.flip(frame, code)\<close> and \<open>cv2.applyColorMap(frame, colormap)\<close>. They belong to
  the library, not to this module; the packets considered are those OpenCV decodes.
\<close>

record 'n cv2 =
  cv2_imdecode :: "nat list \<Rightarrow> imread \<Rightarrow> 'n ndarray"
  cv2_flip :: "'n ndarray \<Rightarrow> int \<Rightarrow> 'n ndarray"
  cv2_applyColorMap :: "'n ndarray \<Rightarrow> int \<Rightarrow> 'n ndarray"

definition COLORMAP_JET :: int where
  "COLORMAP_JET = 2"

definition EVENT_LBUTTONUP :: int where
  "EVENT_LBUTTONUP = 4"

text \<open>
  A \<open>depthai.ImgFrame\<close> packet, by what its three accessors return: the encoded bytes,
  the OpenCV frame and the raw frame.
\<close>

record 'n packet =
  getData :: "nat list"
  getCvFrame :: "'n ndarray"
  getFrame :: "'n ndarray"

text \<open>
  The \<open>PreviewManager\<close> the decoders read. The attributes read with
  \<open>getattr(manager, name, default)\<close> or \<open>hasattr\<close> are optional (\<open>None\<close>: the
  attribute is missing, or holds Python's \<open>None\<close> for \<open>dispScaleFactor\<close>); the
  others are read directly and every manager has them.
\<close>

record 'n manager =
  lowBandwidth :: bool
  sync :: bool
  nn_source :: "string option"
  baseline :: "'n option"
  fov :: "'n option"
  focal :: "'n option"
  dispScaleFactor :: "'n option"
  dispMultiplier :: 'n
  colorMap :: int

text \<open>\<open>getattr(manager, name, default)\<close>, where \<open>manager\<close> may be \<open>None\<close>.\<close>

definition getattr :: "'m option \<Rightarrow> ('m \<Rightarrow> 'a option) \<Rightarrow> 'a \<Rightarrow> 'a" where
  "getattr m field dflt =
     (case m of None \<Rightarrow> dflt
      | Some c \<Rightarrow> (case field c of None \<Rightarrow> dflt | Some v \<Rightarrow> v))"

section \<open>\<open>PreviewDecoder\<close>\<close>

definition nn_input :: "'n cv2 \<Rightarrow> 'n packet \<Rightarrow> 'n manager option \<Rightarrow> 'n ndarray" where
  "nn_input cv p m =
     (let frame = (if False then cv2_imdecode cv (getData p) IMREAD_COLOR else getCvFrame p)
      in case m of
           None \<Rightarrow> frame
         | Some c \<Rightarrow>
             (case nn_source c of
                None \<Rightarrow> frame
              | Some src \<Rightarrow>
                  if src = ''rectified_left'' \<or> src = ''rectified_right''
                  then cv2_flip cv frame 1 else frame))"

definition color :: "'n cv2 \<Rightarrow> 'n packet \<Rightarrow> 'n manager option \<Rightarrow> 'n ndarray" where
  "color cv p m =
     (case m of
        None \<Rightarrow> getCvFrame p
      | Some c \<Rightarrow>
          if lowBandwidth c \<and> \<not> sync c then cv2_imdecode cv (getData p) IMREAD_COLOR
          else getCvFrame p)"

definition left :: "'n cv2 \<Rightarrow> 'n packet \<Rightarrow> 'n manager option \<Rightarrow> 'n ndarray" where
  "left cv p m =
     (case m of
        None \<Rightarrow> getCvFrame p
      | Some c \<Rightarrow>
          if lowBandwidth c \<and> \<not> sync c then cv2_imdecode cv (getData p) IMREAD_GRAYSCALE
          else getCvFrame p)"

definition right :: "'n cv2 \<Rightarrow> 'n packet \<Rightarrow> 'n manager option \<Rightarrow> 'n ndarray" where
  "right cv p m =
     (case m of
        None \<Rightarrow> getCvFrame p
      | Some c \<Rightarrow>
          if lowBandwidth c \<and> \<not> sync c then cv2_imdecode cv (getData p) IMREAD_GRAYSCALE
          else getCvFrame p)"

definition rectified_left :: "'n cv2 \<Rightarrow> 'n packet \<Rightarrow> 'n manager option \<Rightarrow> 'n ndarray" where
  "rectified_left cv p m =
     (case m of
        None \<Rightarrow> cv2_flip cv (getCvFrame p) 1
      | Some c \<Rightarrow>
          if lowBandwidth c \<and> \<not> sync c
          then cv2_flip cv (cv2_imdecode cv (getData p) IMREAD_GRAYSCALE) 1
          else cv2_flip cv (getCvFrame p) 1)"

definition rectified_right :: "'n cv2 \<Rightarrow> 'n packet \<Rightarrow> 'n manager option \<Rightarrow> 'n ndarray" where
  "rectified_right cv p m =
     (case m of
        None \<Rightarrow> cv2_flip cv (getCvFrame p) 1
      | Some c \<Rightarrow>
          if lowBandwidth c
          then cv2_flip cv (cv2_imdecode cv (getData p) IMREAD_GRAYSCALE) 1
          else cv2_flip cv (getCvFrame p) 1)"

definition depth_raw :: "'n cv2 \<Rightarrow> 'n packet \<Rightarrow> 'n manager option \<Rightarrow> 'n ndarray" where
  "depth_raw cv p m =
     (if False then cv2_imdecode cv (getData p) IMREAD_UNCHANGED else getFrame p)"

definition disparity_color :: "'n cv2 \<Rightarrow> 'n ndarray \<Rightarrow> 'n manager option \<Rightarrow> 'n ndarray" where
  "disparity_color cv disp m =
     cv2_applyColorMap cv disp (case m of None \<Rightarrow> COLORMAP_JET | Some c \<Rightarrow> colorMap c)"

definition disparity ::
  "'n pyarith \<Rightarrow> 'n cv2 \<Rightarrow> 'n packet \<Rightarrow> 'n manager option \<Rightarrow> 'n ndarray" where
  "disparity ar cv p m =
     (let raw_frame =
            (case m of
               None \<Rightarrow> getFrame p
             | Some c \<Rightarrow>
                 if lowBandwidth c then cv2_imdecode cv (getData p) IMREAD_GRAYSCALE
                 else getFrame p);
          k = (case m of
                 None \<Rightarrow> fl_div ar (fl_lit ar 255) (fl_lit ar 96)
               | Some c \<Rightarrow> dispMultiplier c)
      in map_ndarray (\<lambda>v. np_uint8 ar (np_mul ar v k)) raw_frame)"

text \<open>
  The default focal length of \<open>depth\<close>, the third argument of
  \<open>getattr(manager, 'focal', ...)\<close>. Python evaluates it before the call, whether or not
  the manager has a focal length: first \<open>depth_raw.shape[1]\<close>, then the tangent, then the
  division.
\<close>

definition default_focal :: "'n pyarith \<Rightarrow> 'n ndarray \<Rightarrow> 'n \<Rightarrow> error + 'n" where
  "default_focal ar raw fov_v =
     (case tuple_get (shape raw) 1 of
        Inl e \<Rightarrow> Inl e
      | Inr w \<Rightarrow>
          (case math_tan ar (math_radians ar (fl_div ar fov_v (fl_lit ar 2))) of
             None \<Rightarrow> Inl ValueError
           | Some t \<Rightarrow>
               py_truediv ar (fl_lit ar (of_nat w)) (fl_mul ar (fl_lit ar 2) t)))"

text \<open>
  Lines 146 to 153 of \<open>depth\<close>: the scale factor and the manager after the step. The
  manager is shared and mutable, so the step returns it.
\<close>

definition scale_factor ::
  "'n pyarith \<Rightarrow> 'n ndarray \<Rightarrow> 'n manager option \<Rightarrow> error + ('n \<times> 'n manager option)" where
  "scale_factor ar raw m =
     (case getattr m (\<lambda>c. Some (dispScaleFactor c)) None of
        Some s \<Rightarrow> Inr (s, m)
      | None \<Rightarrow>
          (let b = getattr m baseline (fl_lit ar 75);
               fov_v = getattr m fov (fl_lit ar (7186 / 100))
           in case default_focal ar raw fov_v of
                Inl e \<Rightarrow> Inl e
              | Inr d \<Rightarrow>
                  (let s = fl_mul ar b (getattr m focal d)
                   in Inr (s, map_option (\<lambda>c. c\<lparr>dispScaleFactor := Some s\<rparr>) m))))"

text \<open>
  \<open>depth\<close>: the result, or the exception raised, and the manager as the call leaves it
  (an exception raised after line 153 leaves the cached scale factor in place).
\<close>

definition depth ::
  "'n pyarith \<Rightarrow> 'n cv2 \<Rightarrow> 'n ndarray \<Rightarrow> 'n manager option
     \<Rightarrow> (error + 'n ndarray) \<times> 'n manager option" where
  "depth ar cv raw m =
     (case scale_factor ar raw m of
        Inl e \<Rightarrow> (Inl e, m)
      | Inr (s, m') \<Rightarrow>
          (let disp_frame = map_ndarray (\<lambda>v. np_div ar s v) raw
           in case m' of
                None \<Rightarrow> (Inl AttributeError, m')
              | Some c \<Rightarrow>
                  (let disp8 =
                         map_ndarray (\<lambda>v. np_uint8 ar (np_mul ar v (dispMultiplier c))) disp_frame
                   in (Inr (disparity_color cv disp8 m'), m'))))"

section \<open>\<open>MouseClickTracker\<close>\<close>

text \<open>
  The two dictionaries of the tracker, per frame name: the selected point, and the value
  shown (the source's \<open>values\<close>, written \<open>values_map\<close> here).
\<close>

record tracker =
  points :: "string \<rightharpoonup> int \<times> int"
  values_map :: "string \<rightharpoonup> string"

definition empty_tracker :: tracker where
  "empty_tracker = \<lparr>points = Map.empty, values_map = Map.empty\<rparr>"

text \<open>
  The callback \<open>cb\<close> that \<open>select_point(name)\<close> returns, applied to a mouse event. Its
  arguments \<open>flags\<close> and \<open>param\<close> are not read and are left out.
\<close>

definition select_point :: "string \<Rightarrow> int \<Rightarrow> int \<Rightarrow> int \<Rightarrow> tracker \<Rightarrow> tracker" where
  "select_point name event x y t =
     (if event = EVENT_LBUTTONUP then
        (if points t name = Some (x, y)
         then t\<lparr>points := (points t)(name := None), values_map := (values_map t)(name := None)\<rparr>
         else t\<lparr>points := (points t)(name \<mapsto> (x, y))\<rparr>)
      else t)"

text \<open>\<open>frame[point[1]][point[0]]\<close>: row \<open>y\<close>, then column \<open>x\<close>.\<close>

definition sample_at :: "'n ndarray \<Rightarrow> int \<times> int \<Rightarrow> error + 'n ndarray" where
  "sample_at frame point =
     (case nd_index frame (snd point) of
        Inl e \<Rightarrow> Inl e
      | Inr row \<Rightarrow> nd_index row (fst point))"

text \<open>
  \<open>"R:{},G:{},B:{}".format(*args)\<close>: the first three arguments fill the fields, further
  ones are ignored, and fewer than three raise IndexError. \<open>fmt\<close> is the text Python
  prints for a numpy value (\<open>str\<close>, and \<open>format\<close> with an empty format specification).
\<close>

fun format_rgb :: "('n ndarray \<Rightarrow> string) \<Rightarrow> 'n ndarray list \<Rightarrow> error + string" where
  "format_rgb fmt (a # b # c # rest) =
     Inr (''R:'' @ fmt a @ '',G:'' @ fmt b @ '',B:'' @ fmt c)"
| "format_rgb fmt args = Inl IndexError"

text \<open>
  The string \<open>extract_value\<close> stores for a frame name, a frame and the selected point,
  branch by branch as in the source.
\<close>

definition value_text ::
  "('n ndarray \<Rightarrow> string) \<Rightarrow> string \<Rightarrow> 'n ndarray \<Rightarrow> int \<times> int \<Rightarrow> error + string" where
  "value_text fmt name frame point =
     (if name = ''depth_raw'' \<or> name = ''depth'' then
        (case sample_at frame point of Inl e \<Rightarrow> Inl e | Inr v \<Rightarrow> Inr (fmt v @ ''mm''))
      else if name = ''disparity_color'' \<or> name = ''disparity'' then
        (case sample_at frame point of Inl e \<Rightarrow> Inl e | Inr v \<Rightarrow> Inr (fmt v @ ''px''))
      else if length (shape frame) = 3 then
        (case sample_at frame point of
           Inl e \<Rightarrow> Inl e
         | Inr v \<Rightarrow>
             (case nd_reversed v of Inl e \<Rightarrow> Inl e | Inr args \<Rightarrow> format_rgb fmt args))
      else if length (shape frame) = 2 then
        (case sample_at frame point of Inl e \<Rightarrow> Inl e | Inr v \<Rightarrow> Inr (''Gray:'' @ fmt v))
      else
        (case sample_at frame point of Inl e \<Rightarrow> Inl e | Inr v \<Rightarrow> Inr (fmt v)))"

text \<open>
  \<open>extract_value\<close>: the tracker after the call, or the exception raised; an exception
  comes before the assignment and leaves the tracker as it was.
\<close>

definition extract_value ::
  "('n ndarray \<Rightarrow> string) \<Rightarrow> string \<Rightarrow> 'n ndarray \<Rightarrow> tracker \<Rightarrow> error + tracker" where
  "extract_value fmt name frame t =
     (case points t name of
        None \<Rightarrow> Inr t
      | Some point \<Rightarrow>
          (case value_text fmt name frame point of
             Inl e \<Rightarrow> Inl e
           | Inr s \<Rightarrow> Inr (t\<lparr>values_map := (values_map t)(name \<mapsto> s)\<rparr>)))"

text \<open>The tracker a caller is left with after \<open>extract_value\<close>, raised or not.\<close>

definition after_extract ::
  "('n ndarray \<Rightarrow> string) \<Rightarrow> string \<Rightarrow> 'n ndarray \<Rightarrow> tracker \<Rightarrow> tracker" where
  "after_extract fmt name frame t =
     (case extract_value fmt name frame t of Inl e \<Rightarrow> t | Inr t' \<Rightarrow> t')"

text \<open>
  What a program does to a tracker: it delivers a mouse event at \<open>(x, y)\<close> to the callback
  registered for a frame name, or it calls \<open>extract_value\<close> with a name and a frame. The
  tracker states a program can reach are those of \<open>run\<close>, the calls made one after the
  other from the empty dictionaries; a call of \<open>extract_value\<close> that raises leaves the
  tracker as it was.
\<close>

datatype 'n call = Click string int int int | Extract string "'n ndarray"

fun step :: "('n ndarray \<Rightarrow> string) \<Rightarrow> tracker \<Rightarrow> 'n call \<Rightarrow> tracker" where
  "step fmt t (Click name event x y) = select_point name event x y t"
| "step fmt t (Extract name frame) = after_extract fmt name frame t"

definition run :: "('n ndarray \<Rightarrow> string) \<Rightarrow> 'n call list \<Rightarrow> tracker" where
  "run fmt calls = foldl (step fmt) empty_tracker calls"

text \<open>
  Three observations of a run. A call stores a value for a name when it is
  \<open>extract_value\<close> on that name, a point is stored for the name and formatting the sample
  there succeeds. A list of calls made from a tracker is quiet for a name when none of
  them stores a value for it. A call is a release on a name when it is the release of the
  left button on that name, the one event the callback acts on.
\<close>

fun stores_value :: "('n ndarray \<Rightarrow> string) \<Rightarrow> string \<Rightarrow> tracker \<Rightarrow> 'n call \<Rightarrow> bool" where
  "stores_value fmt name t (Click n event x y) = False"
| "stores_value fmt name t (Extract n frame) =
     (n = name \<and>
      (case points t n of
         None \<Rightarrow> False
       | Some p \<Rightarrow> (case value_text fmt n frame p of Inl e \<Rightarrow> False | Inr s \<Rightarrow> True)))"

fun quiet :: "('n ndarray \<Rightarrow> string) \<Rightarrow> string \<Rightarrow> tracker \<Rightarrow> 'n call list \<Rightarrow> bool" where
  "quiet fmt name t [] = True"
| "quiet fmt name t (c # cs) =
     (\<not> stores_value fmt name t c \<and> quiet fmt name (step fmt t c) cs)"

fun is_release_on :: "string \<Rightarrow> 'n call \<Rightarrow> bool" where
  "is_release_on name (Click n event x y) = (n = name \<and> event = EVENT_LBUTTONUP)"
| "is_release_on name (Extract n frame) = False"

section \<open>Concrete parameters for evaluating the decoders and the tracker\<close>

text \<open>
  An instance of the OpenCV primitives on small arrays: the codec stores one row of
  samples, \<open>flip\<close> with code 1 reverses every row, and the colour map makes three
  channels of each sample.
\<close>

fun mirror :: "'n ndarray \<Rightarrow> 'n ndarray" where
  "mirror (Scalar v) = Scalar v"
| "mirror (Array rows) =
     Array (map (\<lambda>r. case r of Scalar v \<Rightarrow> Scalar v | Array px \<Rightarrow> Array (rev px)) rows)"

fun colorize :: "'n ndarray \<Rightarrow> 'n ndarray" where
  "colorize (Scalar v) = Array [Scalar v, Scalar v, Scalar v]"
| "colorize (Array rs) = Array (map colorize rs)"

definition sample_cv2 :: "real cv2" where
  "sample_cv2 =
     \<lparr>cv2_imdecode = (\<lambda>data flag. Array [Array (map (\<lambda>b. Scalar (real b)) data)]),
      cv2_flip = (\<lambda>frame code. if code = 1 then mirror frame else frame),
      cv2_applyColorMap = (\<lambda>frame cm. colorize frame)\<rparr>"

text \<open>An instance of the arithmetic on the real numbers, where a zero divisor gives 0.\<close>

definition real_arith :: "real pyarith" where
  "real_arith =
     \<lparr>fl_lit = of_rat, fl_mul = (*), fl_div = (/), fl_is_zero = (\<lambda>x. x = 0),
      math_radians = (\<lambda>x. x * pi / 180), math_tan = (\<lambda>x. Some (tan x)),
      np_div = (/), np_mul = (*), np_uint8 = (\<lambda>x. of_int (\<lfloor>x\<rfloor> mod 256))\<rparr>"

definition sample_packet :: "real packet" where
  "sample_packet =
     \<lparr>getData = [1, 2],
      getCvFrame = Array [Array [Scalar 7, Scalar 8]],
      getFrame = Array [Array [Scalar 7, Scalar 8]]\<rparr>"

text \<open>A manager in low-bandwidth mode with synchronization on, and nothing cached.\<close>

definition sample_manager :: "real manager" where
  "sample_manager =
     \<lparr>lowBandwidth = True, sync = True, nn_source = None, baseline = None, fov = None,
      focal = None, dispScaleFactor = None, dispMultiplier = 2, colorMap = 2\<rparr>"

text \<open>A raw depth frame of one row, whose first sample is 0.\<close>

definition depth_frame_2 :: "real ndarray" where
  "depth_frame_2 = Array [Array [Scalar 0, Scalar 5]]"

text \<open>A rendering of arrays of natural numbers, digits for a sample and brackets for an axis.\<close>

fun show_nat :: "nat \<Rightarrow> string" where
  "show_nat n =
     (if n < 10 then [''0123456789'' ! n]
      else show_nat (n div 10) @ [''0123456789'' ! (n mod 10)])"

fun sample_fmt :: "nat ndarray \<Rightarrow> string" where
  "sample_fmt (Scalar n) = show_nat n"
| "sample_fmt (Array rs) = ''['' @ concat (map (\<lambda>r. sample_fmt r @ '' '') rs) @ '']''"

text \<open>A grey frame of one row and two columns, and a colour frame of one pixel.\<close>

definition gray_frame :: "nat ndarray" where
  "gray_frame = Array [Array [Scalar 7, Scalar 9]]"


text \<open>
  Two runs on the frame name \<open>left\<close>: a click at (0, 0) and an extraction from the grey
  frame; and the same followed by a click at (1, 0).
\<close>

definition left_calls :: "nat call list" where
  "left_calls = [Click ''left'' EVENT_LBUTTONUP 0 0, Extract ''left'' gray_frame]"

definition left_calls_moved :: "nat call list" where
  "left_calls_moved = left_calls @ [Click ''left'' EVENT_LBUTTONUP 1 0]"

section \<open>The decoders' choice between the encoded and the native image\<close>

text \<open>
  C2. \<open>color\<close>, \<open>left\<close> and \<open>right\<close> decode the packet's encoded bytes (as a colour
  image for \<open>color\<close>, as a grey one for \<open>left\<close> and \<open>right\<close>) exactly when a manager
  is given, its low-bandwidth flag is set and its synchronization flag is not; in every
  other case they return the packet's own OpenCV frame.
\<close>

theorem color_left_right_branch:
  "color cv p m =
     (if (\<exists>c. m = Some c \<and> lowBandwidth c \<and> \<not> sync c)
      then cv2_imdecode cv (getData p) IMREAD_COLOR else getCvFrame p) \<and>
   left cv p m =
     (if (\<exists>c. m = Some c \<and> lowBandwidth c \<and> \<not> sync c)
      then cv2_imdecode cv (getData p) IMREAD_GRAYSCALE else getCvFrame p) \<and>
   right cv p m =
     (if (\<exists>c. m = Some c \<and> lowBandwidth c \<and> \<not> sync c)
      then cv2_imdecode cv (getData p) IMREAD_GRAYSCALE else getCvFrame p)"
  by (cases m) (simp_all add: color_def left_def right_def)

text \<open>
  C3. \<open>rectified_right\<close> decodes the encoded bytes whenever the low-bandwidth flag is
  set, whatever the synchronization flag, while \<open>rectified_left\<close> also needs the
  synchronization flag unset: on a manager with both flags set the first flips the decoded
  image and the second flips the native frame.
\<close>

theorem rectified_right_ignores_sync:
  "rectified_right cv p m =
     cv2_flip cv (if (\<exists>c. m = Some c \<and> lowBandwidth c)
                  then cv2_imdecode cv (getData p) IMREAD_GRAYSCALE else getCvFrame p) 1 \<and>
   rectified_left cv p m =
     cv2_flip cv (if (\<exists>c. m = Some c \<and> lowBandwidth c \<and> \<not> sync c)
                  then cv2_imdecode cv (getData p) IMREAD_GRAYSCALE else getCvFrame p) 1 \<and>
   rectified_right cv p (Some (c\<lparr>lowBandwidth := True, sync := True\<rparr>)) =
     cv2_flip cv (cv2_imdecode cv (getData p) IMREAD_GRAYSCALE) 1 \<and>
   rectified_left cv p (Some (c\<lparr>lowBandwidth := True, sync := True\<rparr>)) =
     cv2_flip cv (getCvFrame p) 1"
  by (cases m) (simp_all add: rectified_right_def rectified_left_def)

text \<open>
  What holds of the mirrored decoders: \<open>rectified_left\<close> is the flip of \<open>left\<close> on every
  packet and manager, and \<open>rectified_right\<close> is the flip of \<open>right\<close> unless the manager
  has both flags set.
\<close>

lemma rectified_left_flips_left: "rectified_left cv p m = cv2_flip cv (left cv p m) 1"
  by (cases m) (simp_all add: rectified_left_def left_def)

lemma rectified_right_flips_right:
  "\<not> (\<exists>c. m = Some c \<and> lowBandwidth c \<and> sync c) \<Longrightarrow>
   rectified_right cv p m = cv2_flip cv (right cv p m) 1"
  by (cases m) (auto simp add: rectified_right_def right_def)

text \<open>
  C1. With both flags set, \<open>rectified_right\<close> is not the flip of \<open>right\<close>: on the sample
  packet it returns the flipped decoded bytes, \<open>[[2, 1]]\<close>, where the flip of what \<open>right\<close>
  returns is the flipped native frame, \<open>[[8, 7]]\<close>.
\<close>

theorem rectified_right_not_flip_of_right:
  "rectified_right sample_cv2 sample_packet (Some sample_manager) =
     Array [Array [Scalar 2, Scalar 1]] \<and>
   cv2_flip sample_cv2 (right sample_cv2 sample_packet (Some sample_manager)) 1 =
     Array [Array [Scalar 8, Scalar 7]]"
  by (simp add: rectified_right_def right_def sample_cv2_def sample_packet_def
      sample_manager_def)

text \<open>
  C5. \<open>disparity\<close> takes the grey image decoded from the encoded bytes when a manager
  with the low-bandwidth flag is given and the packet's raw frame otherwise, multiplies
  every sample by the manager's disparity multiplier, or by 255/96 without a manager, and
  converts every product to an unsigned 8-bit sample.
\<close>

theorem disparity_scaled_uint8:
  "disparity ar cv p m =
     map_ndarray
       (\<lambda>v. np_uint8 ar (np_mul ar v
          (case m of
             None \<Rightarrow> fl_div ar (fl_lit ar 255) (fl_lit ar 96)
           | Some c \<Rightarrow> dispMultiplier c)))
       (if (\<exists>c. m = Some c \<and> lowBandwidth c)
        then cv2_imdecode cv (getData p) IMREAD_GRAYSCALE else getFrame p)"
  by (cases m) (simp_all add: disparity_def)

section \<open>\<open>depth\<close>: the scale factor and its cache\<close>

text \<open>The scale factor step, case by case.\<close>

lemma scale_factor_cached:
  "dispScaleFactor c = Some s \<Longrightarrow> scale_factor ar raw (Some c) = Inr (s, Some c)"
  by (simp add: scale_factor_def getattr_def)

lemma scale_factor_computed:
  "dispScaleFactor c = None \<Longrightarrow>
   default_focal ar raw (getattr (Some c) fov (fl_lit ar (7186 / 100))) = Inr d \<Longrightarrow>
   scale_factor ar raw (Some c) =
     Inr (fl_mul ar (getattr (Some c) baseline (fl_lit ar 75)) (getattr (Some c) focal d),
          Some (c\<lparr>dispScaleFactor :=
                  Some (fl_mul ar (getattr (Some c) baseline (fl_lit ar 75))
                          (getattr (Some c) focal d))\<rparr>))"
  by (simp add: scale_factor_def getattr_def Let_def)

lemma scale_factor_raises:
  "dispScaleFactor c = None \<Longrightarrow>
   default_focal ar raw (getattr (Some c) fov (fl_lit ar (7186 / 100))) = Inl e \<Longrightarrow>
   scale_factor ar raw (Some c) = Inl e"
  by (simp add: scale_factor_def getattr_def Let_def)

text \<open>
  The default focal length is \<open>width / (2 * tan(radians(fov / 2)))\<close> when the frame
  has a second axis, the tangent is defined and the divisor is not zero.
\<close>

lemma default_focal_value:
  "tuple_get (shape raw) 1 = Inr w \<Longrightarrow>
   math_tan ar (math_radians ar (fl_div ar fv (fl_lit ar 2))) = Some t \<Longrightarrow>
   \<not> fl_is_zero ar (fl_mul ar (fl_lit ar 2) t) \<Longrightarrow>
   default_focal ar raw fv = Inr (fl_div ar (fl_lit ar (of_nat w)) (fl_mul ar (fl_lit ar 2) t))"
  by (simp add: default_focal_def py_truediv_def)

text \<open>
  Once the scale factor is there, \<open>depth\<close> returns the colour map of the converted
  frame: a manager was given, so line 157 finds its multiplier.
\<close>

lemma depth_with_scale:
  "scale_factor ar raw (Some c) = Inr (s, Some c') \<Longrightarrow>
   depth ar cv raw (Some c) =
     (Inr (cv2_applyColorMap cv
             (map_ndarray (\<lambda>v. np_uint8 ar (np_mul ar (np_div ar s v) (dispMultiplier c'))) raw)
             (colorMap c')),
      Some c')"
  by (simp add: depth_def disparity_color_def Let_def ndarray.map_comp comp_def)

text \<open>\<open>depth\<close> writes no attribute of the manager but the cached scale factor.\<close>

lemma depth_frame:
  "\<exists>c'. snd (depth ar cv raw (Some c)) = Some c' \<and> c'\<lparr>dispScaleFactor := dispScaleFactor c\<rparr> = c"
  apply (cases "dispScaleFactor c")
   apply (cases "default_focal ar raw (getattr (Some c) fov (fl_lit ar (7186 / 100)))")
    apply (simp add: depth_def scale_factor_raises)
   apply (simp add: depth_with_scale scale_factor_computed)
  apply (simp add: depth_with_scale scale_factor_cached)
  done


text \<open>
  C4, as amended. Let the manager have no cached scale factor, and let the default focal
  length be computable: the frame has a width \<open>w\<close>, the tangent of half the field of
  view (71.86 when the manager has none) is defined, and twice that tangent is not zero.
  Then \<open>depth\<close> leaves the manager with the scale factor \<open>s\<close> cached, where \<open>s\<close>
  is the baseline (75 when the manager has none) times the focal length (the manager's, or
  \<open>w / (2 * tan(radians(fov / 2)))\<close> when it has none), and with every other attribute
  as it was. A later call on that manager, on any frame, converts with the cached \<open>s\<close>,
  computes nothing again and leaves the manager as it is. Whatever the manager and the
  frame, \<open>depth\<close> changes no attribute but the cached scale factor.
\<close>

theorem depth_caches_scale_factor:
  assumes "dispScaleFactor c = None"
    and "tuple_get (shape raw) 1 = Inr w"
    and "math_tan ar (math_radians ar
           (fl_div ar (getattr (Some c) fov (fl_lit ar (7186 / 100))) (fl_lit ar 2))) = Some t"
    and "\<not> fl_is_zero ar (fl_mul ar (fl_lit ar 2) t)"
    and "s = fl_mul ar (getattr (Some c) baseline (fl_lit ar 75))
               (getattr (Some c) focal
                  (fl_div ar (fl_lit ar (of_nat w)) (fl_mul ar (fl_lit ar 2) t)))"
  shows "snd (depth ar cv raw (Some c)) = Some (c\<lparr>dispScaleFactor := Some s\<rparr>) \<and>
         depth ar cv raw' (Some (c\<lparr>dispScaleFactor := Some s\<rparr>)) =
           (Inr (cv2_applyColorMap cv
                   (map_ndarray
                      (\<lambda>v. np_uint8 ar (np_mul ar (np_div ar s v) (dispMultiplier c))) raw')
                   (colorMap c)),
            Some (c\<lparr>dispScaleFactor := Some s\<rparr>)) \<and>
         (\<exists>c'. snd (depth ar cv raw' (Some c0)) = Some c' \<and>
               c'\<lparr>dispScaleFactor := dispScaleFactor c0\<rparr> = c0)"
proof -
  let ?fv = "getattr (Some c) fov (fl_lit ar (7186 / 100))"
  let ?d = "fl_div ar (fl_lit ar (of_nat w)) (fl_mul ar (fl_lit ar 2) t)"
  have focal_ok: "default_focal ar raw ?fv = Inr ?d"
    using assms(2-4) by (rule default_focal_value)
  have first: "scale_factor ar raw (Some c) = Inr (s, Some (c\<lparr>dispScaleFactor := Some s\<rparr>))"
    using scale_factor_computed [OF assms(1) focal_ok] assms(5) by simp
  have "snd (depth ar cv raw (Some c)) = Some (c\<lparr>dispScaleFactor := Some s\<rparr>)"
    using depth_with_scale [OF first] by simp
  moreover have "scale_factor ar raw' (Some (c\<lparr>dispScaleFactor := Some s\<rparr>)) =
      Inr (s, Some (c\<lparr>dispScaleFactor := Some s\<rparr>))"
    by (rule scale_factor_cached) simp
  then have "depth ar cv raw' (Some (c\<lparr>dispScaleFactor := Some s\<rparr>)) =
      (Inr (cv2_applyColorMap cv
              (map_ndarray
                 (\<lambda>v. np_uint8 ar (np_mul ar (np_div ar s v) (dispMultiplier c))) raw')
              (colorMap c)),
       Some (c\<lparr>dispScaleFactor := Some s\<rparr>))"
    using depth_with_scale by fastforce
  moreover have "\<exists>c'. snd (depth ar cv raw' (Some c0)) = Some c' \<and>
      c'\<lparr>dispScaleFactor := dispScaleFactor c0\<rparr> = c0"
    by (rule depth_frame)
  ultimately show ?thesis by blast
qed

text \<open>The operations of the instance on the real numbers.\<close>

lemma real_lits:
  "fl_lit real_arith 2 = 2" "fl_lit real_arith 75 = 75"
  "fl_lit real_arith (7186 / 100) = 7186 / 100"
  "fl_lit real_arith (of_nat n) = of_nat n"
  by (simp_all add: real_arith_def of_rat_divide)

lemma real_lit_of_rat: "fl_lit real_arith q = of_rat q"
  by (simp add: real_arith_def)

lemma real_ops:
  "fl_mul real_arith a b = a * b" "fl_div real_arith a b = a / b"
  "fl_is_zero real_arith a = (a = 0)" "math_radians real_arith a = a * pi / 180"
  "math_tan real_arith a = Some (tan a)" "np_div real_arith a b = a / b"
  "np_mul real_arith a b = a * b" "np_uint8 real_arith a = of_int (\<lfloor>a\<rfloor> mod 256)"
  by (simp_all add: real_arith_def)

lemma shape_depth_frame_2: "tuple_get (shape depth_frame_2) 1 = Inr 2"
  by (simp add: depth_frame_2_def tuple_get_def)

lemma tan_half_90: "tan ((90::real) / 2 * pi / 180) = 1"
proof -
  have "(90::real) / 2 * pi / 180 = pi / 4" by simp
  then show ?thesis by (simp add: tan_45)
qed

text \<open>
  The hypotheses hold for a field of view of 90 degrees on a frame two samples wide: the
  default focal length is 1, the scale factor 75, and a second call on the sample 3 gives
  the colour of \<open>75 / 3 * 2 = 50\<close>.
\<close>

theorem depth_caches_scale_factor_witness:
  "snd (depth real_arith sample_cv2 depth_frame_2 (Some (sample_manager\<lparr>fov := Some 90\<rparr>))) =
     Some (sample_manager\<lparr>fov := Some 90, dispScaleFactor := Some 75\<rparr>) \<and>
   depth real_arith sample_cv2 (Scalar 3)
       (Some (sample_manager\<lparr>fov := Some 90, dispScaleFactor := Some 75\<rparr>)) =
     (Inr (Array [Scalar 50, Scalar 50, Scalar 50]),
      Some (sample_manager\<lparr>fov := Some 90, dispScaleFactor := Some 75\<rparr>))"
proof -
  have h1: "dispScaleFactor (sample_manager\<lparr>fov := Some 90\<rparr>) = None"
    by (simp add: sample_manager_def)
  have h3: "math_tan real_arith (math_radians real_arith
       (fl_div real_arith (getattr (Some (sample_manager\<lparr>fov := Some 90\<rparr>)) fov
          (fl_lit real_arith (7186 / 100))) (fl_lit real_arith 2))) = Some 1"
    using tan_half_90 by (simp add: real_ops real_lits getattr_def)
  have h4: "\<not> fl_is_zero real_arith (fl_mul real_arith (fl_lit real_arith 2) 1)"
    by (simp add: real_ops real_lits)
  have h5: "(75::real) = fl_mul real_arith
       (getattr (Some (sample_manager\<lparr>fov := Some 90\<rparr>)) baseline (fl_lit real_arith 75))
       (getattr (Some (sample_manager\<lparr>fov := Some 90\<rparr>)) focal
          (fl_div real_arith (fl_lit real_arith (of_nat 2))
             (fl_mul real_arith (fl_lit real_arith 2) 1)))"
    by (simp add: real_ops real_lits getattr_def sample_manager_def)
  show ?thesis
    using depth_caches_scale_factor [OF h1 shape_depth_frame_2 h3 h4 h5,
        of sample_cv2 "Scalar 3"]
    by (simp add: sample_manager_def sample_cv2_def real_ops)
qed

text \<open>
  The claim as it was stated fails on a manager with nothing cached and a field of view
  of 0: the division by \<open>2 * tan 0\<close> in the default focal length raises
  ZeroDivisionError and nothing is cached. Python evaluates the default focal length
  before it looks for the manager's own, so the same happens when the manager has a focal
  length.
\<close>

theorem depth_zero_fov_counterexample:
  "dispScaleFactor (sample_manager\<lparr>baseline := Some 50, fov := Some 0\<rparr>) = None \<and>
   depth real_arith sample_cv2 depth_frame_2
       (Some (sample_manager\<lparr>baseline := Some 50, fov := Some 0\<rparr>)) =
     (Inl ZeroDivisionError, Some (sample_manager\<lparr>baseline := Some 50, fov := Some 0\<rparr>)) \<and>
   depth real_arith sample_cv2 depth_frame_2
       (Some (sample_manager\<lparr>baseline := Some 50, fov := Some 0, focal := Some 1\<rparr>)) =
     (Inl ZeroDivisionError,
      Some (sample_manager\<lparr>baseline := Some 50, fov := Some 0, focal := Some 1\<rparr>))"
  by (simp add: depth_def scale_factor_def default_focal_def py_truediv_def getattr_def
      tuple_get_def depth_frame_2_def sample_manager_def real_ops real_lits)

section \<open>\<open>depth\<close>: samples equal to zero, and a missing manager\<close>

text \<open>
  C9, as amended. For a manager whose scale factor \<open>s\<close> is cached, or can be computed
  (the default focal length is computable), \<open>depth\<close> raises nothing on any frame,
  samples equal to 0 included: the result is the colour map (\<open>disparity_color\<close>) of the
  frame whose every sample \<open>v\<close> has become \<open>uint8((s / v) * dispMultiplier)\<close>, with
  numpy's division, which yields a sentinel on \<open>v = 0\<close> and does not raise.
\<close>

theorem depth_tolerates_zero_samples:
  assumes "dispScaleFactor c = Some s \<or>
           (dispScaleFactor c = None \<and>
            default_focal ar raw (getattr (Some c) fov (fl_lit ar (7186 / 100))) = Inr d \<and>
            s = fl_mul ar (getattr (Some c) baseline (fl_lit ar 75)) (getattr (Some c) focal d))"
  shows "fst (depth ar cv raw (Some c)) =
           Inr (disparity_color cv
                  (map_ndarray
                     (\<lambda>v. np_uint8 ar (np_mul ar (np_div ar s v) (dispMultiplier c))) raw)
                  (Some c))"
proof -
  from assms obtain c' where sf: "scale_factor ar raw (Some c) = Inr (s, Some c')"
    and same: "dispMultiplier c' = dispMultiplier c" "colorMap c' = colorMap c"
  proof
    assume "dispScaleFactor c = Some s"
    then have "scale_factor ar raw (Some c) = Inr (s, Some c)"
      by (rule scale_factor_cached)
    then show ?thesis using that by simp
  next
    assume "dispScaleFactor c = None \<and>
            default_focal ar raw (getattr (Some c) fov (fl_lit ar (7186 / 100))) = Inr d \<and>
            s = fl_mul ar (getattr (Some c) baseline (fl_lit ar 75)) (getattr (Some c) focal d)"
    then have "scale_factor ar raw (Some c) = Inr (s, Some (c\<lparr>dispScaleFactor := Some s\<rparr>))"
      using scale_factor_computed by fastforce
    then show ?thesis using that by simp
  qed
  show ?thesis
    using depth_with_scale [OF sf] same by (simp add: disparity_color_def)
qed

text \<open>
  On the frame \<open>[[0, 5]]\<close> with the scale factor 10 cached and the multiplier 2: the
  sample 0 gives the sentinel of the instance (there: 0) and the sample 5 gives 4.
\<close>

theorem depth_tolerates_zero_samples_witness:
  "fst (depth real_arith sample_cv2 depth_frame_2
          (Some (sample_manager\<lparr>dispScaleFactor := Some 10\<rparr>))) =
     Inr (Array [Array [Array [Scalar 0, Scalar 0, Scalar 0],
                        Array [Scalar 4, Scalar 4, Scalar 4]]])"
proof -
  have h: "dispScaleFactor (sample_manager\<lparr>dispScaleFactor := Some 10\<rparr>) = Some 10 \<or>
      (dispScaleFactor (sample_manager\<lparr>dispScaleFactor := Some 10\<rparr>) = None \<and>
       default_focal real_arith depth_frame_2
         (getattr (Some (sample_manager\<lparr>dispScaleFactor := Some 10\<rparr>)) fov
            (fl_lit real_arith (7186 / 100))) = Inr 0 \<and>
       10 = fl_mul real_arith
              (getattr (Some (sample_manager\<lparr>dispScaleFactor := Some 10\<rparr>)) baseline
                 (fl_lit real_arith 75))
              (getattr (Some (sample_manager\<lparr>dispScaleFactor := Some 10\<rparr>)) focal 0))"
    by simp
  show ?thesis
    using depth_tolerates_zero_samples [OF h, of sample_cv2]
    by (simp add: disparity_color_def sample_manager_def sample_cv2_def depth_frame_2_def
        real_ops)
qed

text \<open>
  The claim as it was stated fails on a manager with nothing cached and a field of view
  of 0: \<open>depth\<close> raises ZeroDivisionError on the frame \<open>[[0, 5]]\<close>, before it reaches
  the division by the samples.
\<close>

theorem depth_raises_on_zero_fov_counterexample:
  "fst (depth real_arith sample_cv2 depth_frame_2 (Some (sample_manager\<lparr>fov := Some 0\<rparr>))) =
     Inl ZeroDivisionError"
  by (simp add: depth_def scale_factor_def default_focal_def py_truediv_def getattr_def
      tuple_get_def depth_frame_2_def sample_manager_def real_ops real_lits)

text \<open>
  C10. Without a manager, \<open>depth\<close> on a frame with a width computes the scale factor
  from the defaults (the platform's tangent of half of 71.86 degrees being defined and
  not zero) and then raises AttributeError at \<open>manager.dispMultiplier\<close>; the other
  decoders return a frame without a manager.
\<close>

theorem depth_without_manager:
  assumes "tuple_get (shape raw) 1 = Inr w"
    and "math_tan ar (math_radians ar (fl_div ar (fl_lit ar (7186 / 100)) (fl_lit ar 2))) = Some t"
    and "\<not> fl_is_zero ar (fl_mul ar (fl_lit ar 2) t)"
  shows "depth ar cv raw None = (Inl AttributeError, None) \<and>
         nn_input cv p None = getCvFrame p \<and>
         color cv p None = getCvFrame p \<and>
         left cv p None = getCvFrame p \<and>
         right cv p None = getCvFrame p \<and>
         rectified_left cv p None = cv2_flip cv (getCvFrame p) 1 \<and>
         rectified_right cv p None = cv2_flip cv (getCvFrame p) 1 \<and>
         depth_raw cv p None = getFrame p \<and>
         disparity ar cv p None =
           map_ndarray
             (\<lambda>v. np_uint8 ar (np_mul ar v (fl_div ar (fl_lit ar 255) (fl_lit ar 96))))
             (getFrame p) \<and>
         disparity_color cv raw None = cv2_applyColorMap cv raw COLORMAP_JET"
proof -
  have "default_focal ar raw (fl_lit ar (7186 / 100)) =
      Inr (fl_div ar (fl_lit ar (of_nat w)) (fl_mul ar (fl_lit ar 2) t))"
    using assms by (rule default_focal_value)
  then have "depth ar cv raw None = (Inl AttributeError, None)"
    by (simp add: depth_def scale_factor_def getattr_def Let_def)
  then show ?thesis
    by (simp add: nn_input_def color_def left_def right_def rectified_left_def
        rectified_right_def depth_raw_def disparity_def disparity_color_def)
qed

text \<open>On the real numbers the tangent of 35.93 degrees is positive.\<close>

lemma real_default_tan: "tan ((7186 / 100 :: real) / 2 * pi / 180) \<noteq> 0"
proof -
  have "0 < (7186 / 100 :: real) / 2 * pi / 180"
    by simp
  moreover have "(7186 / 100 :: real) / 2 * pi / 180 < pi / 2"
    using pi_gt_zero by simp
  ultimately have "0 < tan ((7186 / 100 :: real) / 2 * pi / 180)"
    by (rule tan_gt_zero)
  then show ?thesis by simp
qed

text \<open>The hypotheses hold on the real numbers, for the frame \<open>[[0, 5]]\<close>.\<close>

theorem depth_without_manager_witness:
  "depth real_arith sample_cv2 depth_frame_2 None = (Inl AttributeError, None)"
proof -
  have h2: "math_tan real_arith (math_radians real_arith
      (fl_div real_arith (fl_lit real_arith (7186 / 100)) (fl_lit real_arith 2))) =
      Some (tan ((7186 / 100 :: real) / 2 * pi / 180))"
    by (simp add: real_ops real_lit_of_rat of_rat_divide)
  have h3: "\<not> fl_is_zero real_arith
      (fl_mul real_arith (fl_lit real_arith 2) (tan ((7186 / 100 :: real) / 2 * pi / 180)))"
    using real_default_tan by (simp add: real_ops real_lits)
  show ?thesis
    using depth_without_manager [OF shape_depth_frame_2 h2 h3, of sample_cv2 sample_packet]
    by simp
qed

section \<open>The tracker: clicks\<close>

text \<open>\<open>extract_value\<close> writes no point; a release of the left button stores or clears.\<close>

lemma after_extract_points: "points (after_extract fmt name frame t) = points t"
  by (simp add: after_extract_def extract_value_def split: option.splits sum.splits)

lemma select_point_stores:
  "points t name \<noteq> Some (x, y) \<Longrightarrow>
   select_point name EVENT_LBUTTONUP x y t = t\<lparr>points := (points t)(name \<mapsto> (x, y))\<rparr>"
  by (simp add: select_point_def)

lemma select_point_clears:
  "points t name = Some (x, y) \<Longrightarrow>
   select_point name EVENT_LBUTTONUP x y t =
     t\<lparr>points := (points t)(name := None), values_map := (values_map t)(name := None)\<rparr>"
  by (simp add: select_point_def)

text \<open>
  C6, as amended. From a tracker whose stored point for the name is not \<open>(x, y)\<close>, two
  successive releases of the left button at \<open>(x, y)\<close> on that name leave neither a point
  nor a value for the name, whether or not \<open>extract_value\<close> ran on the name between the
  two (on any frame, raising or not).
\<close>

theorem two_clicks_clear_selection:
  assumes "points t name \<noteq> Some (x, y)"
  shows "points (select_point name EVENT_LBUTTONUP x y
                  (select_point name EVENT_LBUTTONUP x y t)) name = None \<and>
         values_map (select_point name EVENT_LBUTTONUP x y
                  (select_point name EVENT_LBUTTONUP x y t)) name = None \<and>
         points (select_point name EVENT_LBUTTONUP x y
                  (after_extract fmt name frame
                     (select_point name EVENT_LBUTTONUP x y t))) name = None \<and>
         values_map (select_point name EVENT_LBUTTONUP x y
                  (after_extract fmt name frame
                     (select_point name EVENT_LBUTTONUP x y t))) name = None"
proof -
  let ?t1 = "select_point name EVENT_LBUTTONUP x y t"
  let ?t2 = "after_extract fmt name frame ?t1"
  have p1: "points ?t1 name = Some (x, y)"
    using assms by (simp add: select_point_stores)
  then have p2: "points ?t2 name = Some (x, y)"
    by (simp add: after_extract_points)
  show ?thesis
    by (simp add: select_point_clears [OF p1] select_point_clears [OF p2])
qed

text \<open>
  From the empty tracker: a click at (1, 0), an extraction that stores \<open>Gray:9\<close>, and
  the second click clears both.
\<close>

theorem two_clicks_clear_selection_witness:
  "points (select_point ''color'' EVENT_LBUTTONUP 1 0
             (after_extract sample_fmt ''color'' gray_frame
                (select_point ''color'' EVENT_LBUTTONUP 1 0 empty_tracker))) ''color'' = None \<and>
   values_map (select_point ''color'' EVENT_LBUTTONUP 1 0
             (after_extract sample_fmt ''color'' gray_frame
                (select_point ''color'' EVENT_LBUTTONUP 1 0 empty_tracker))) ''color'' = None \<and>
   values_map (after_extract sample_fmt ''color'' gray_frame
                (select_point ''color'' EVENT_LBUTTONUP 1 0 empty_tracker)) ''color'' =
     Some ''Gray:9''"
proof -
  have h: "points empty_tracker ''color'' \<noteq> Some (1, 0)"
    by (simp add: empty_tracker_def)
  have "values_map (after_extract sample_fmt ''color'' gray_frame
                (select_point ''color'' EVENT_LBUTTONUP 1 0 empty_tracker)) ''color'' =
     Some ''Gray:9''"
    by (simp add: after_extract_def extract_value_def value_text_def sample_at_def
        select_point_def empty_tracker_def gray_frame_def)
  then show ?thesis
    using two_clicks_clear_selection [OF h, of sample_fmt gray_frame] by simp
qed

text \<open>
  The claim as it was stated fails from a tracker that already holds \<open>(x, y)\<close> for the
  name: the first click clears the point and the second stores it again.
\<close>

theorem two_clicks_on_selected_point_counterexample:
  "points (select_point ''color'' EVENT_LBUTTONUP 1 0
             (select_point ''color'' EVENT_LBUTTONUP 1 0
                \<lparr>points = [''color'' \<mapsto> (1, 0)], values_map = Map.empty\<rparr>)) ''color'' =
     Some (1, 0)"
  by (simp add: select_point_def)


section \<open>The tracker: \<open>extract_value\<close>\<close>










section \<open>The tracker: what holds in every reachable state\<close>

text \<open>A run, call by call.\<close>

lemma run_snoc: "run fmt (calls @ [c]) = step fmt (run fmt calls) c"
  by (simp add: run_def)

lemma quiet_snoc:
  "quiet fmt name t (cs @ [c]) =
     (quiet fmt name t cs \<and> \<not> stores_value fmt name (foldl (step fmt) t cs) c)"
  by (induction cs arbitrary: t) auto

text \<open>
  A call that stores a value for a name is \<open>extract_value\<close> on that name, and the value
  is the text of the frame passed at the point stored; a call that does not store one
  leaves an earlier value or none, and leaves a point where it leaves a value; a call that
  is no release on a name leaves the point of the name.
\<close>

lemma step_stores:
  assumes "stores_value fmt name t c"
  shows "\<exists>frame q s. c = Extract name frame \<and> points t name = Some q \<and>
           value_text fmt name frame q = Inr s \<and>
           step fmt t c = t\<lparr>values_map := (values_map t)(name \<mapsto> s)\<rparr>"
  using assms
  by (cases c)
    (auto simp add: after_extract_def extract_value_def split: option.splits sum.splits)

lemma step_keeps_value:
  assumes "\<not> stores_value fmt name t c" and "values_map (step fmt t c) name = Some s"
  shows "values_map t name = Some s \<and>
         (points t name \<noteq> None \<longrightarrow> points (step fmt t c) name \<noteq> None)"
  using assms
  by (cases c)
    (auto simp add: select_point_def after_extract_def extract_value_def
      split: option.splits sum.splits if_splits)

lemma step_keeps_point:
  "\<not> is_release_on name c \<Longrightarrow> points (step fmt t c) name = points t name"
  by (cases c) (auto simp add: select_point_def after_extract_points)

text \<open>
  C8, as amended. In every tracker state reachable from the empty one by mouse events and
  calls of \<open>extract_value\<close>, a name that has a value \<open>s\<close> has a point, and \<open>s\<close> is the
  string extracted by the last call that stored a value for the name: that call is
  \<open>extract_value\<close> on the name, made when the point \<open>q\<close> was stored for it, \<open>s\<close> is the
  text of the frame passed to that call at \<open>q\<close>, and no later call stored a value for the
  name. The point \<open>q\<close> is the one stored now unless a release of the left button on the
  name came after that call.
\<close>

theorem value_from_last_extract:
  assumes "values_map (run fmt calls) name = Some s"
  shows "\<exists>before frame after q.
           calls = before @ Extract name frame # after \<and>
           points (run fmt before) name = Some q \<and>
           value_text fmt name frame q = Inr s \<and>
           quiet fmt name (run fmt (before @ [Extract name frame])) after \<and>
           (\<exists>p. points (run fmt calls) name = Some p) \<and>
           ((\<forall>c \<in> set after. \<not> is_release_on name c) \<longrightarrow>
              points (run fmt calls) name = Some q)"
  using assms
proof (induction calls arbitrary: s rule: rev_induct)
  case Nil
  then show ?case by (simp add: run_def empty_tracker_def)
next
  case (snoc c calls)
  let ?t = "run fmt calls"
  have new: "values_map (step fmt ?t c) name = Some s"
    using snoc.prems by (simp add: run_snoc)
  show ?case
  proof (cases "stores_value fmt name ?t c")
    case True
    from step_stores [OF True] obtain frame q s0 where
      c: "c = Extract name frame" and q: "points ?t name = Some q" and
      v: "value_text fmt name frame q = Inr s0" and
      st: "step fmt ?t c = ?t\<lparr>values_map := (values_map ?t)(name \<mapsto> s0)\<rparr>"
      by blast
    from new st have "s0 = s" by simp
    with c q v st have
      "calls @ [c] = calls @ Extract name frame # [] \<and>
       points (run fmt calls) name = Some q \<and>
       value_text fmt name frame q = Inr s \<and>
       quiet fmt name (run fmt (calls @ [Extract name frame])) [] \<and>
       (\<exists>p. points (run fmt (calls @ [c])) name = Some p) \<and>
       ((\<forall>c \<in> set []. \<not> is_release_on name c) \<longrightarrow>
          points (run fmt (calls @ [c])) name = Some q)"
      by (simp add: run_snoc)
    then show ?thesis by blast
  next
    case False
    from step_keeps_value [OF False new] have old: "values_map ?t name = Some s"
      and keep: "points ?t name \<noteq> None \<longrightarrow> points (step fmt ?t c) name \<noteq> None"
      by simp_all
    from snoc.IH [OF old] obtain before frame after q where
      d: "calls = before @ Extract name frame # after" and
      q: "points (run fmt before) name = Some q" and
      v: "value_text fmt name frame q = Inr s" and
      qu: "quiet fmt name (run fmt (before @ [Extract name frame])) after" and
      p: "\<exists>p. points ?t name = Some p" and
      cur: "(\<forall>c \<in> set after. \<not> is_release_on name c) \<longrightarrow> points ?t name = Some q"
      by blast
    have t: "foldl (step fmt) (run fmt (before @ [Extract name frame])) after = ?t"
      using d by (simp add: run_def)
    have 1: "calls @ [c] = before @ Extract name frame # (after @ [c])"
      using d by simp
    have 2: "quiet fmt name (run fmt (before @ [Extract name frame])) (after @ [c])"
      using qu False by (simp add: quiet_snoc t)
    have 3: "\<exists>p. points (run fmt (calls @ [c])) name = Some p"
      using p keep by (auto simp add: run_snoc)
    have 4: "(\<forall>c' \<in> set (after @ [c]). \<not> is_release_on name c') \<longrightarrow>
        points (run fmt (calls @ [c])) name = Some q"
      using cur by (auto simp add: run_snoc step_keeps_point)
    from 1 q v 2 3 4 show ?thesis by blast
  qed
qed

text \<open>The two sample runs, evaluated.\<close>

lemma run_left_calls:
  "run sample_fmt left_calls =
     \<lparr>points = [''left'' \<mapsto> (0, 0)], values_map = [''left'' \<mapsto> ''Gray:7'']\<rparr>"
  by (simp add: run_def left_calls_def after_extract_def extract_value_def value_text_def
      sample_at_def select_point_def empty_tracker_def gray_frame_def)

lemma run_left_calls_moved:
  "run sample_fmt left_calls_moved =
     \<lparr>points = [''left'' \<mapsto> (1, 0)], values_map = [''left'' \<mapsto> ''Gray:7'']\<rparr>"
  using run_left_calls
  by (simp add: left_calls_moved_def run_snoc select_point_def)

text \<open>
  After the click at (0, 0) and the extraction, \<open>left\<close> has the value \<open>Gray:7\<close>, and the
  theorem finds its source in the run: a call of \<open>extract_value\<close> on \<open>left\<close>.
\<close>

theorem value_from_last_extract_witness:
  "values_map (run sample_fmt left_calls) ''left'' = Some ''Gray:7'' \<and>
   points (run sample_fmt left_calls) ''left'' = Some (0, 0) \<and>
   (\<exists>before frame after q.
      left_calls = before @ Extract ''left'' frame # after \<and>
      points (run sample_fmt before) ''left'' = Some q \<and>
      value_text sample_fmt ''left'' frame q = Inr ''Gray:7'' \<and>
      quiet sample_fmt ''left'' (run sample_fmt (before @ [Extract ''left'' frame])) after \<and>
      (\<exists>p. points (run sample_fmt left_calls) ''left'' = Some p) \<and>
      ((\<forall>c \<in> set after. \<not> is_release_on ''left'' c) \<longrightarrow>
         points (run sample_fmt left_calls) ''left'' = Some q))"
proof -
  have v: "values_map (run sample_fmt left_calls) ''left'' = Some ''Gray:7''"
    by (simp add: run_left_calls)
  have p: "points (run sample_fmt left_calls) ''left'' = Some (0, 0)"
    by (simp add: run_left_calls)
  from v p value_from_last_extract [OF v] show ?thesis
    by (intro conjI)
qed

text \<open>
  The claim as it was stated fails after a click elsewhere: the run that ends with a
  click at (1, 0) has the point (1, 0) and still the value \<open>Gray:7\<close>, which is what the
  only frame ever passed holds at (0, 0); at the stored point (1, 0) it holds \<open>Gray:9\<close>.
\<close>

theorem stale_value_counterexample:
  "points (run sample_fmt left_calls_moved) ''left'' = Some (1, 0) \<and>
   values_map (run sample_fmt left_calls_moved) ''left'' = Some ''Gray:7'' \<and>
   value_text sample_fmt ''left'' gray_frame (0, 0) = Inr ''Gray:7'' \<and>
   value_text sample_fmt ''left'' gray_frame (1, 0) = Inr ''Gray:9''"
  by (simp add: run_left_calls_moved value_text_def sample_at_def gray_frame_def)

end
